theory Spec2Isabelle
  imports Main "HOL-Library.Product_Lexorder" "HOL-Library.Code_Target_Nat"
begin

section \<open>Python strings and exceptions\<close>

text \<open>
  A Python \<open>str\<close> is modelled as a \<open>string\<close>: a list of characters, each standing for
  one code point below 256. The character classes below are the ones CPython uses on
  that range for \<open>str.split()\<close>, \<open>str.strip()\<close> and the regular expression classes
  \<open>\s\<close> and \<open>\w\<close>.
\<close>

definition is_space :: "char \<Rightarrow> bool" where
  "is_space c = (let n = (of_char c :: nat) in
     (9 \<le> n \<and> n \<le> 13) \<or> (28 \<le> n \<and> n \<le> 32) \<or> n = 133 \<or> n = 160)"

definition is_digit :: "char \<Rightarrow> bool" where
  "is_digit c = (let n = (of_char c :: nat) in 48 \<le> n \<and> n \<le> 57)"

definition is_word :: "char \<Rightarrow> bool" where
  "is_word c = (let n = (of_char c :: nat) in
     (48 \<le> n \<and> n \<le> 57) \<or> (65 \<le> n \<and> n \<le> 90) \<or> (97 \<le> n \<and> n \<le> 122) \<or> n = 95 \<or>
     n = 170 \<or> n = 178 \<or> n = 179 \<or> n = 181 \<or> n = 185 \<or> n = 186 \<or>
     (188 \<le> n \<and> n \<le> 190) \<or> (192 \<le> n \<and> n \<le> 214) \<or> (216 \<le> n \<and> n \<le> 246) \<or>
     (248 \<le> n \<and> n \<le> 255))"

text \<open>\<open>s.strip()\<close>\<close>

definition strip :: "string \<Rightarrow> string" where
  "strip s = rev (dropWhile is_space (rev (dropWhile is_space s)))"

text \<open>\<open>s.split()\<close>: the maximal runs of non-whitespace characters. The second argument
  is the word being read, reversed.\<close>

fun words_acc :: "string \<Rightarrow> string \<Rightarrow> string list" where
  "words_acc [] w = (if w = [] then [] else [rev w])"
| "words_acc (c # cs) w =
     (if is_space c then (if w = [] then words_acc cs [] else rev w # words_acc cs [])
      else words_acc cs (c # w))"

definition split_ws :: "string \<Rightarrow> string list" where
  "split_ws s = words_acc s []"

text \<open>\<open>s.split(d)\<close> for a one-character separator: never the empty list.\<close>

fun split_on :: "char \<Rightarrow> string \<Rightarrow> string list" where
  "split_on d [] = [[]]"
| "split_on d (c # cs) =
     (if c = d then [] # split_on d cs
      else (case split_on d cs of [] \<Rightarrow> [[c]] | l # ls \<Rightarrow> (c # l) # ls))"

text \<open>\<open>s.startswith(p)\<close> and \<open>sub in s\<close>\<close>

definition startswith :: "string \<Rightarrow> string \<Rightarrow> bool" where
  "startswith s p = (take (length p) s = p)"

fun contains :: "string \<Rightarrow> string \<Rightarrow> bool" where
  "contains [] sub = (sub = [])"
| "contains (c # cs) sub = (startswith (c # cs) sub \<or> contains cs sub)"

text \<open>\<open>s.lower()\<close> on the modelled range.\<close>

definition lower_char :: "char \<Rightarrow> char" where
  "lower_char c = (let n = (of_char c :: nat) in
     if (65 \<le> n \<and> n \<le> 90) \<or> (192 \<le> n \<and> n \<le> 222 \<and> n \<noteq> 215) then char_of (n + 32) else c)"

definition lower :: "string \<Rightarrow> string" where
  "lower s = map lower_char s"

text \<open>\<open>str(n)\<close> for a natural number, and a number padded with zeros to two digits
  (\<open>%d\<close>, \<open>%m\<close> of \<open>strftime\<close>).\<close>

definition digit_char :: "nat \<Rightarrow> char" where
  "digit_char n = char_of (48 + n mod 10)"

fun show_nat :: "nat \<Rightarrow> string" where
  "show_nat n = (if n < 10 then [digit_char n] else show_nat (n div 10) @ [digit_char n])"

declare show_nat.simps [simp del]

definition show_int :: "int \<Rightarrow> string" where
  "show_int i = (if i < 0 then CHR ''-'' # show_nat (nat (- i)) else show_nat (nat i))"

definition pad2 :: "nat \<Rightarrow> string" where
  "pad2 n = (if n < 10 then CHR ''0'' # show_nat n else show_nat n)"

text \<open>\<open>os.path.basename(p)\<close>: what follows the last slash.\<close>

definition basename :: "string \<Rightarrow> string" where
  "basename p = last (split_on (CHR ''/'') p)"

text \<open>
  An exception is its class and its message (\<open>str(e)\<close>). Every \<open>raise\<close> of the source is
  a value \<open>Inl e\<close> of a sum type; a handler is a case distinction on it.
\<close>

datatype exc_kind =
  ImportError | JSONDecodeError | ValueError | TypeError | AttributeError
  | NotImplementedError | OSError | RuntimeError

datatype exc = Exc exc_kind string

fun exc_class :: "exc \<Rightarrow> exc_kind" where
  "exc_class (Exc k m) = k"

fun exc_str :: "exc \<Rightarrow> string" where
  "exc_str (Exc k m) = m"

section \<open>JSON values\<close>

text \<open>
  What \<open>json.loads\<close> returns: \<open>None\<close>, a bool, an int, a float (kept as its literal), a
  str, a list or a dict (its items in insertion order, the keys distinct).
\<close>

datatype json =
  JNull | JBool bool | JInt int | JFloat string | JStr string
  | JArr "json list" | JObj "(string \<times> json) list"

text \<open>A float literal denotes zero when no digit of its mantissa is nonzero.\<close>

definition float_is_zero :: "string \<Rightarrow> bool" where
  "float_is_zero l =
     list_all (\<lambda>c. c = CHR ''0'' \<or> \<not> is_digit c)
       (takeWhile (\<lambda>c. c \<noteq> CHR ''e'' \<and> c \<noteq> CHR ''E'') l)"

text \<open>Python's truth value of an object, as \<open>if messages:\<close> tests it.\<close>

fun truthy :: "json \<Rightarrow> bool" where
  "truthy JNull = False"
| "truthy (JBool b) = b"
| "truthy (JInt i) = (i \<noteq> 0)"
| "truthy (JFloat l) = (\<not> float_is_zero l)"
| "truthy (JStr s) = (s \<noteq> [])"
| "truthy (JArr xs) = (xs \<noteq> [])"
| "truthy (JObj kvs) = (kvs \<noteq> [])"

text \<open>\<open>for x in v\<close>: a list gives its elements, a str its characters, a dict its keys;
  anything else raises \<open>TypeError\<close>.\<close>

fun py_iter :: "json \<Rightarrow> exc + json list" where
  "py_iter (JArr xs) = Inr xs"
| "py_iter (JStr s) = Inr (map (\<lambda>c. JStr [c]) s)"
| "py_iter (JObj kvs) = Inr (map (\<lambda>kv. JStr (fst kv)) kvs)"
| "py_iter v = Inl (Exc TypeError ''object is not iterable'')"

text \<open>\<open>d.get(k, default)\<close>\<close>

definition dict_get :: "(string \<times> json) list \<Rightarrow> string \<Rightarrow> json \<Rightarrow> json" where
  "dict_get kvs k dflt = (case map_of kvs k of None \<Rightarrow> dflt | Some v \<Rightarrow> v)"

text \<open>\<open>d[k] = v\<close>: an existing key keeps its place.\<close>

fun dict_set :: "(string \<times> json) list \<Rightarrow> string \<Rightarrow> json \<Rightarrow> (string \<times> json) list" where
  "dict_set [] k v = [(k, v)]"
| "dict_set ((k', v') # kvs) k v =
     (if k' = k then (k, v) # kvs else (k', v') # dict_set kvs k v)"

text \<open>
  A value inside an f-string: a str is inserted as it is; any other value through
  Python's \<open>str()\<close>, which the model takes as the parameter \<open>fmt\<close>.
\<close>

definition py_format :: "(json \<Rightarrow> string) \<Rightarrow> json \<Rightarrow> string" where
  "py_format fmt v = (case v of JStr s \<Rightarrow> s | _ \<Rightarrow> fmt v)"

subsection \<open>A reader for JSON text\<close>

text \<open>
  \<open>json.loads\<close> is library code: the functions of the program take it as a parameter
  \<open>loads\<close>, where \<open>None\<close> stands for \<open>json.JSONDecodeError\<close>. To run the model on concrete
  files, \<open>json_loads\<close> below reads the JSON grammar as \<open>json.loads\<close> does, with two
  limits of the modelled alphabet: an escape \<open>\uXXXX\<close> is read only below 256, and a
  float keeps its literal. The recursion is on a fuel argument; each level of fuel
  is spent on at least one character of the text or is followed by a level that is,
  and \<open>json_loads\<close> starts with twice the length of the text.
\<close>

definition is_json_ws :: "char \<Rightarrow> bool" where
  "is_json_ws c = (c = CHR '' '' \<or> c = CHR 0x09 \<or> c = CHR 0x0A \<or> c = CHR 0x0D)"

definition skip_ws :: "string \<Rightarrow> string" where
  "skip_ws s = dropWhile is_json_ws s"

definition hex_val :: "char \<Rightarrow> nat option" where
  "hex_val c = (let n = (of_char c :: nat) in
     if 48 \<le> n \<and> n \<le> 57 then Some (n - 48)
     else if 65 \<le> n \<and> n \<le> 70 then Some (n - 55)
     else if 97 \<le> n \<and> n \<le> 102 then Some (n - 87)
     else None)"

definition unescape :: "char \<Rightarrow> char option" where
  "unescape e =
     (if e = CHR 0x22 then Some (CHR 0x22)
      else if e = CHR 0x5C then Some (CHR 0x5C)
      else if e = CHR ''/'' then Some (CHR ''/'')
      else if e = CHR ''b'' then Some (CHR 0x08)
      else if e = CHR ''f'' then Some (CHR 0x0C)
      else if e = CHR ''n'' then Some (CHR 0x0A)
      else if e = CHR ''r'' then Some (CHR 0x0D)
      else if e = CHR ''t'' then Some (CHR 0x09)
      else None)"

text \<open>The characters of a string literal after its opening quote; \<open>acc\<close> is what has
  been read, reversed.\<close>

fun parse_string_body :: "string \<Rightarrow> string \<Rightarrow> (string \<times> string) option" where
  "parse_string_body [] acc = None"
| "parse_string_body (c # cs) acc =
     (if c = CHR 0x22 then Some (rev acc, cs)
      else if c = CHR 0x5C then
        (case cs of
           [] \<Rightarrow> None
         | e # cs' \<Rightarrow>
             (if e = CHR ''u'' then
                (case cs' of
                   h1 # h2 # h3 # h4 # cs'' \<Rightarrow>
                     (case (hex_val h1, hex_val h2, hex_val h3, hex_val h4) of
                        (Some a, Some b, Some c', Some d) \<Rightarrow>
                          (if a = 0 \<and> b = 0
                           then parse_string_body cs'' (char_of (16 * c' + d) # acc)
                           else None)
                      | _ \<Rightarrow> None)
                 | _ \<Rightarrow> None)
              else (case unescape e of
                      None \<Rightarrow> None
                    | Some ch \<Rightarrow> parse_string_body cs' (ch # acc))))
      else if (of_char c :: nat) < 32 then None
      else parse_string_body cs (c # acc))"

definition digits_val :: "string \<Rightarrow> int" where
  "digits_val ds = foldl (\<lambda>a c. 10 * a + int (of_char c - 48)) 0 ds"

text \<open>A number: \<open>-?(0|[1-9][0-9]*)(\.[0-9]+)?([eE][-+]?[0-9]+)?\<close>, an int when it has
  neither fraction nor exponent.\<close>

definition lex_frac :: "string \<Rightarrow> string \<times> string" where
  "lex_frac s =
     (case s of
        c # cs \<Rightarrow>
          (if c = CHR ''.'' \<and> takeWhile is_digit cs \<noteq> []
           then (c # takeWhile is_digit cs, dropWhile is_digit cs) else ([], s))
      | [] \<Rightarrow> ([], s))"

definition lex_exp :: "string \<Rightarrow> string \<times> string" where
  "lex_exp s =
     (case s of
        c # cs \<Rightarrow>
          (if c = CHR ''e'' \<or> c = CHR ''E'' then
             (let (sgn, r) = (case cs of
                                [] \<Rightarrow> ([], cs)
                              | d # ds \<Rightarrow> if d = CHR ''+'' \<or> d = CHR ''-'' then ([d], ds) else ([], cs))
              in if takeWhile is_digit r \<noteq> []
                 then (c # sgn @ takeWhile is_digit r, dropWhile is_digit r) else ([], s))
           else ([], s))
      | [] \<Rightarrow> ([], s))"

definition lex_number :: "string \<Rightarrow> (json \<times> string) option" where
  "lex_number s =
     (let (sgn, s1) = (case s of
                         [] \<Rightarrow> ([], s)
                       | c # cs \<Rightarrow> if c = CHR ''-'' then ([c], cs) else ([], s));
          ds = takeWhile is_digit s1
      in if ds = [] then None
         else
           (let ip = (if hd ds = CHR ''0'' then [CHR ''0''] else ds);
                s2 = drop (length ip) s1;
                (fr, s3) = lex_frac s2;
                (ex, s4) = lex_exp s3
            in if fr = [] \<and> ex = []
               then Some (JInt (if sgn = [] then digits_val ip else - digits_val ip), s4)
               else Some (JFloat (sgn @ ip @ fr @ ex), s4)))"

fun parse_value :: "nat \<Rightarrow> string \<Rightarrow> (json \<times> string) option"
  and parse_elems :: "nat \<Rightarrow> string \<Rightarrow> json list \<Rightarrow> (json \<times> string) option"
  and parse_members :: "nat \<Rightarrow> string \<Rightarrow> (string \<times> json) list \<Rightarrow> (json \<times> string) option"
where
  "parse_value 0 s = None"
| "parse_value (Suc n) s =
     (case s of
        [] \<Rightarrow> None
      | c # cs \<Rightarrow>
          (if c = CHR 0x22 then
             (case parse_string_body cs [] of
                None \<Rightarrow> None
              | Some (str, r) \<Rightarrow> Some (JStr str, r))
           else if c = CHR ''['' then
             (case skip_ws cs of
                [] \<Rightarrow> None
              | d # r \<Rightarrow> if d = CHR '']'' then Some (JArr [], r) else parse_elems n (d # r) [])
           else if c = CHR ''{'' then
             (case skip_ws cs of
                [] \<Rightarrow> None
              | d # r \<Rightarrow> if d = CHR ''}'' then Some (JObj [], r) else parse_members n (d # r) [])
           else if startswith s ''null'' then Some (JNull, drop 4 s)
           else if startswith s ''true'' then Some (JBool True, drop 4 s)
           else if startswith s ''false'' then Some (JBool False, drop 5 s)
           else if startswith s ''NaN'' then Some (JFloat ''nan'', drop 3 s)
           else if startswith s ''Infinity'' then Some (JFloat ''inf'', drop 8 s)
           else if startswith s ''-Infinity'' then Some (JFloat ''-inf'', drop 9 s)
           else lex_number s))"
| "parse_elems 0 s acc = None"
| "parse_elems (Suc n) s acc =
     (case parse_value n s of
        None \<Rightarrow> None
      | Some (v, r) \<Rightarrow>
          (case skip_ws r of
             [] \<Rightarrow> None
           | d # r' \<Rightarrow>
               if d = CHR '','' then parse_elems n (skip_ws r') (acc @ [v])
               else if d = CHR '']'' then Some (JArr (acc @ [v]), r')
               else None))"
| "parse_members 0 s acc = None"
| "parse_members (Suc n) s acc =
     (case s of
        [] \<Rightarrow> None
      | q # s' \<Rightarrow>
          (if q \<noteq> CHR 0x22 then None
           else
             (case parse_string_body s' [] of
                None \<Rightarrow> None
              | Some (k, r) \<Rightarrow>
                  (case skip_ws r of
                     [] \<Rightarrow> None
                   | col # r1 \<Rightarrow>
                       (if col \<noteq> CHR '':'' then None
                        else
                          (case parse_value n (skip_ws r1) of
                             None \<Rightarrow> None
                           | Some (v, r2) \<Rightarrow>
                               (case skip_ws r2 of
                                  [] \<Rightarrow> None
                                | d # r3 \<Rightarrow>
                                    if d = CHR '','' then parse_members n (skip_ws r3) (dict_set acc k v)
                                    else if d = CHR ''}'' then Some (JObj (dict_set acc k v), r3)
                                    else None)))))))"

definition json_loads :: "string \<Rightarrow> json option" where
  "json_loads s =
     (case parse_value (2 * length s + 2) (skip_ws s) of
        None \<Rightarrow> None
      | Some (v, r) \<Rightarrow> if skip_ws r = [] then Some v else None)"

section \<open>LLMService: reading a JSON array from a model's reply\<close>











section \<open>DatabaseManager: the store\<close>

text \<open>
  The columns that hold \<open>datetime.isoformat()\<close> texts are modelled by the datetime they
  denote, to the second; SQLite compares such texts character by character, which is
  the order of the fields from the year down, and \<open>dt_key\<close> is that order.
\<close>

record datetime =
  dt_year :: nat
  dt_month :: nat
  dt_day :: nat
  dt_hour :: nat
  dt_minute :: nat
  dt_second :: nat

definition dt_key :: "datetime \<Rightarrow> nat" where
  "dt_key t =
     ((((dt_year t * 13 + dt_month t) * 32 + dt_day t) * 24 + dt_hour t) * 60 + dt_minute t) * 60
     + dt_second t"





text \<open>\<open>calendar.month_name[m]\<close> and the \<open>strftime\<close> formats the tbl_digests use.\<close>

definition month_name :: "nat \<Rightarrow> string" where
  "month_name m =
     (if m = 1 then ''January'' else if m = 2 then ''February'' else if m = 3 then ''March''
      else if m = 4 then ''April'' else if m = 5 then ''May'' else if m = 6 then ''June''
      else if m = 7 then ''July'' else if m = 8 then ''August'' else if m = 9 then ''September''
      else if m = 10 then ''October'' else if m = 11 then ''November''
      else if m = 12 then ''December'' else [])"

definition fmt_B_d_Y :: "datetime \<Rightarrow> string" where
  "fmt_B_d_Y t = month_name (dt_month t) @ '' '' @ pad2 (dt_day t) @ '', '' @ show_nat (dt_year t)"


definition fmt_Y_m_d :: "datetime \<Rightarrow> string" where
  "fmt_Y_m_d t = show_nat (dt_year t) @ ''-'' @ pad2 (dt_month t) @ ''-'' @ pad2 (dt_day t)"

text \<open>
  The tables of \<open>_initialize_db\<close>. \<open>files.file_path\<close> and \<open>tags.name\<close> are \<open>UNIQUE\<close>;
  \<open>content_tags\<close> has the primary key \<open>(content_id, tag_id)\<close>; every \<open>id\<close> is
  \<open>AUTOINCREMENT\<close>, so a table's next id is one more than the largest it ever gave
  (the \<open>seq_\<close> fields). The store is held in memory: an exception of SQLite itself
  (the handlers that roll back and return \<open>None\<close>) is not modelled.
\<close>

datatype metadata =
  PdfMeta nat bool nat nat bool bool string
  | PdfErrorMeta string string

record file_row =
  f_id :: nat
  f_file_path :: string
  f_file_type :: string
  f_file_hash :: string
  f_date_added :: datetime
  f_last_processed :: datetime
  f_metadata :: "metadata option"

record content_row =
  c_id :: nat
  c_file_id :: nat
  c_content_type :: string
  c_content_text :: string
  c_processed_text :: "string option"
  c_date_processed :: datetime

record digest_row =
  g_id :: nat
  g_digest_type :: string
  g_start_date :: "datetime option"
  g_end_date :: "datetime option"
  g_content :: string
  g_created_date :: datetime

record tag_row =
  tg_id :: nat
  tg_name :: string

record task_row =
  t_id :: nat
  t_content_id :: nat
  t_task_text :: string
  t_completed :: bool
  t_due_date :: "datetime option"
  t_created_date :: datetime

record db =
  tbl_files :: "file_row list"
  tbl_content :: "content_row list"
  tbl_digests :: "digest_row list"
  tbl_tags :: "tag_row list"
  tbl_content_tags :: "(nat \<times> nat) list"
  tbl_tasks :: "task_row list"
  seq_files :: nat
  seq_contents :: nat
  seq_digests :: nat
  seq_tags :: nat
  seq_tasks :: nat

definition empty_db :: db where
  "empty_db = \<lparr>tbl_files = [], tbl_content = [], tbl_digests = [], tbl_tags = [], tbl_content_tags = [],
               tbl_tasks = [], seq_files = 0, seq_contents = 0, seq_digests = 0, seq_tags = 0,
               seq_tasks = 0\<rparr>"

text \<open>
  \<open>add_file\<close>: \<open>INSERT OR IGNORE\<close> skips the row when its \<open>file_path\<close> is already there.
  Each call opens a connection of its own, on which \<open>cursor.lastrowid\<close> is 0 after a
  skipped insert: that is the \<open>file_id\<close> returned then.
\<close>

definition add_file ::
  "db \<Rightarrow> datetime \<Rightarrow> string \<Rightarrow> string \<Rightarrow> string \<Rightarrow> metadata option \<Rightarrow> nat \<times> db" where
  "add_file d now path ftype fhash meta =
     (if path \<in> set (map f_file_path (tbl_files d)) then (0, d)
      else (seq_files d + 1,
            d\<lparr>tbl_files := tbl_files d @
                 [\<lparr>f_id = seq_files d + 1, f_file_path = path, f_file_type = ftype,
                   f_file_hash = fhash, f_date_added = now, f_last_processed = now,
                   f_metadata = meta\<rparr>],
              seq_files := seq_files d + 1\<rparr>))"

definition add_content ::
  "db \<Rightarrow> datetime \<Rightarrow> nat \<Rightarrow> string \<Rightarrow> string \<Rightarrow> string option \<Rightarrow> nat \<times> db" where
  "add_content d now fid ctype text processed =
     (seq_contents d + 1,
      d\<lparr>tbl_content := tbl_content d @
           [\<lparr>c_id = seq_contents d + 1, c_file_id = fid, c_content_type = ctype,
             c_content_text = text, c_processed_text = processed,
             c_date_processed = now\<rparr>],
        seq_contents := seq_contents d + 1\<rparr>)"

text \<open>One turn of the loop of \<open>add_tags\<close>: the tag is inserted unless its name is
  there, its id is read back, and the pair is inserted unless it is there.\<close>

definition tag_id_of :: "tag_row list \<Rightarrow> string \<Rightarrow> nat option" where
  "tag_id_of rows name = map_option tg_id (find (\<lambda>r. tg_name r = name) rows)"

definition add_tag :: "nat \<Rightarrow> db \<Rightarrow> string \<Rightarrow> db" where
  "add_tag cid d tag =
     (let d1 = (if tag \<in> set (map tg_name (tbl_tags d)) then d
                else d\<lparr>tbl_tags := tbl_tags d @ [\<lparr>tg_id = seq_tags d + 1, tg_name = tag\<rparr>],
                       seq_tags := seq_tags d + 1\<rparr>)
      in case tag_id_of (tbl_tags d1) tag of
           None \<Rightarrow> d1
         | Some tid \<Rightarrow>
             if (cid, tid) \<in> set (tbl_content_tags d1) then d1
             else d1\<lparr>tbl_content_tags := tbl_content_tags d1 @ [(cid, tid)]\<rparr>)"

definition add_tags :: "db \<Rightarrow> nat \<Rightarrow> string list \<Rightarrow> db" where
  "add_tags d cid tag_list = foldl (add_tag cid) d tag_list"

definition add_task :: "db \<Rightarrow> datetime \<Rightarrow> nat \<Rightarrow> string \<Rightarrow> datetime option \<Rightarrow> nat \<times> db" where
  "add_task d now cid text due =
     (seq_tasks d + 1,
      d\<lparr>tbl_tasks := tbl_tasks d @
           [\<lparr>t_id = seq_tasks d + 1, t_content_id = cid, t_task_text = text,
             t_completed = False, t_due_date = due, t_created_date = now\<rparr>],
        seq_tasks := seq_tasks d + 1\<rparr>)"

text \<open>\<open>update_task_status\<close>\<close>

definition update_task_status :: "db \<Rightarrow> nat \<Rightarrow> bool \<Rightarrow> db" where
  "update_task_status d tid completed =
     d\<lparr>tbl_tasks := map (\<lambda>t. if t_id t = tid then t\<lparr>t_completed := completed\<rparr> else t) (tbl_tasks d)\<rparr>"


definition get_file_by_id :: "db \<Rightarrow> nat \<Rightarrow> file_row option" where
  "get_file_by_id d fid = find (\<lambda>f. f_id f = fid) (tbl_files d)"




text \<open>
  \<open>get_tasks(completed)\<close>, called without dates. The rows are the tasks that join a
  content row and its file. The query is run after "NULLS LAST" has been cut out of
  it: \<open>ORDER BY t.completed ASC, t.due_date ASC, t.created_date DESC\<close>, and SQLite puts
  \<open>NULL\<close> before every value in an ascending order.
\<close>

definition task_joins :: "db \<Rightarrow> task_row \<Rightarrow> bool" where
  "task_joins d t =
     (case find (\<lambda>c. c_id c = t_content_id t) (tbl_content d) of
        None \<Rightarrow> False
      | Some c \<Rightarrow> get_file_by_id d (c_file_id c) \<noteq> None)"

definition task_order_key :: "task_row \<Rightarrow> nat \<times> nat \<times> int" where
  "task_order_key t =
     ((if t_completed t then 1 else 0),
      (case t_due_date t of None \<Rightarrow> 0 | Some due \<Rightarrow> dt_key due + 1),
      - int (dt_key (t_created_date t)))"

definition get_tasks :: "db \<Rightarrow> bool option \<Rightarrow> task_row list" where
  "get_tasks d completed =
     sort_key task_order_key
       (filter (\<lambda>t. task_joins d t \<and>
                    (case completed of None \<Rightarrow> True | Some b \<Rightarrow> t_completed t = b))
          (tbl_tasks d))"


section \<open>File processors\<close>

subsection \<open>BaseProcessor: the heuristic extraction\<close>

text \<open>\<open>re.findall(r'#(\w+)', text)\<close>: after each \<open>#\<close>, the longest run of word
  characters, when there is one; the search goes on after the run.\<close>

fun find_hashtags :: "nat \<Rightarrow> string \<Rightarrow> string list" where
  "find_hashtags skip [] = []"
| "find_hashtags skip (c # cs) =
     (if 0 < skip then find_hashtags (skip - 1) cs
      else if c = CHR ''#'' \<and> takeWhile is_word cs \<noteq> []
      then takeWhile is_word cs # find_hashtags (length (takeWhile is_word cs)) cs
      else find_hashtags 0 cs)"

definition extract_tags_heuristic :: "string \<Rightarrow> string list" where
  "extract_tags_heuristic text = (if text = [] then [] else find_hashtags 0 text)"

definition markers :: "string list" where
  "markers = [''- [ ]'', ''* [ ]'', ''[] '', ''TODO:'', ''TASK:'']"

text \<open>The inner loop over the markers, left at the first one the line starts with.\<close>

fun task_of_line :: "string list \<Rightarrow> string \<Rightarrow> string list" where
  "task_of_line [] line = []"
| "task_of_line (marker # ms) line =
     (if startswith line marker then [strip (drop (length marker) line)]
      else task_of_line ms line)"

definition extract_tasks_heuristic :: "string \<Rightarrow> string list" where
  "extract_tasks_heuristic text =
     (if text = [] then []
      else concat (map (\<lambda>line. task_of_line markers (strip line)) (split_on (CHR 0x0A) text)))"

text \<open>
  The dict a processor returns. The key \<open>metadata\<close> is there for PDFs only; every
  other processor leaves it out, which \<open>result.get('metadata')\<close> reads as \<open>None\<close>.
\<close>

record proc_result =
  raw_text :: string
  processed_text :: "string option"
  tags :: "string list"
  tasks :: "string list"
  metadata :: "metadata option"

subsection \<open>AIChatProcessor\<close>

text \<open>One turn of the chat: \<open>f"{role}: {content}\n\n"\<close>.\<close>

definition message_line :: "(json \<Rightarrow> string) \<Rightarrow> (string \<times> json) list \<Rightarrow> string" where
  "message_line fmt msg =
     py_format fmt (dict_get msg ''role'' (JStr [])) @ '': '' @
     py_format fmt (dict_get msg ''content'' (JStr [])) @ [CHR 0x0A, CHR 0x0A]"

text \<open>The loop \<open>for msg in ...: if isinstance(msg, dict): extracted_text += ...\<close>.\<close>

fun messages_text :: "(json \<Rightarrow> string) \<Rightarrow> json list \<Rightarrow> string" where
  "messages_text fmt [] = []"
| "messages_text fmt (msg # msgs) =
     (case msg of
        JObj kvs \<Rightarrow> message_line fmt kvs @ messages_text fmt msgs
      | _ \<Rightarrow> messages_text fmt msgs)"

text \<open>What follows a successful \<open>json.loads\<close>: the text of the turns, or the exception
  of iterating over a \<open>messages\<close> value that cannot be iterated.\<close>

definition chat_text :: "(json \<Rightarrow> string) \<Rightarrow> json \<Rightarrow> exc + string" where
  "chat_text fmt chat_data =
     (case chat_data of
        JArr msgs \<Rightarrow> Inr (messages_text fmt msgs)
      | JObj kvs \<Rightarrow>
          (let messages = dict_get kvs ''messages'' (JArr [])
           in if truthy messages then
                (case py_iter messages of
                   Inl e \<Rightarrow> Inl e
                 | Inr msgs \<Rightarrow> Inr (messages_text fmt msgs))
              else Inr [])
      | _ \<Rightarrow> Inr [])"

text \<open>
  \<open>AIChatProcessor.process\<close>. \<open>file\<close> is what opening and reading the file gives. The
  inner handler catches \<open>json.JSONDecodeError\<close> only; every other exception reaches the
  outer handler, which returns \<open>None\<close>.
\<close>

definition AIChatProcessor_process ::
  "(string \<Rightarrow> json option) \<Rightarrow> (json \<Rightarrow> string) \<Rightarrow> exc + string \<Rightarrow> proc_result option" where
  "AIChatProcessor_process loads fmt file =
     (case file of
        Inl e \<Rightarrow> None
      | Inr chat_content \<Rightarrow>
          (case (case loads chat_content of
                   None \<Rightarrow> Inr chat_content
                 | Some chat_data \<Rightarrow> chat_text fmt chat_data) of
             Inl e \<Rightarrow> None
           | Inr extracted_text \<Rightarrow>
               Some \<lparr>raw_text = extracted_text, processed_text = None,
                     tags = extract_tags_heuristic extracted_text,
                     tasks = extract_tasks_heuristic extracted_text,
                     metadata = None\<rparr>))"

subsection \<open>The world outside the program\<close>

text \<open>
  The LLM service is an object handed to the processors and to the digest generator;
  they only call its methods. Each method is a function from its arguments to what
  the call returns or raises. \<open>svc_extract_tasks\<close> and \<open>svc_extract_tags\<close> are taken at
  the type their callers use them at, a list of strings. \<open>content_dict\<close> is the dict
  the digest generator builds for each content row and hands to the service.
\<close>

record content_dict =
  cd_content_id :: nat
  cd_file_id :: nat
  cd_content_type :: string
  cd_content_text :: string
  cd_processed_text :: "string option"
  cd_date_processed :: datetime
  cd_file_type :: string
  cd_file_path :: string
  cd_tags :: "string list"

record llm_service =
  svc_analyze_image :: "string \<Rightarrow> string \<Rightarrow> exc + string option"
  svc_clean_extraction :: "string \<Rightarrow> exc + string option"
  svc_summarize_content :: "string \<Rightarrow> string option \<Rightarrow> exc + string option"
  svc_extract_tasks :: "string \<Rightarrow> exc + string list"
  svc_extract_tags :: "string \<Rightarrow> exc + string list"
  svc_generate_weekly_digest ::
    "content_dict list \<Rightarrow> datetime \<Rightarrow> datetime \<Rightarrow> exc + string option"
  svc_analyze_trends :: "digest_row list \<Rightarrow> exc + string option"

text \<open>
  Libraries and the operating system, as the processors see them:
  \<^item> \<open>read_text p\<close>: \<open>open(p, 'r', encoding='utf-8').read()\<close>;
  \<^item> \<open>read_md5 p\<close>: \<open>hashlib.md5(open(p, 'rb').read()).hexdigest()\<close>;
  \<^item> \<open>image_to_string p\<close>: \<open>pytesseract.image_to_string(Image.open(p))\<close>;
  \<^item> \<open>read_pdf p\<close>: PyPDF2's \<open>extract_text()\<close> of each page of \<open>p\<close>, or the exception of
    opening or reading it;
  \<^item> \<open>pdf2image_available\<close>, \<open>fitz_available\<close>: whether the import succeeds;
  \<^item> \<open>convert_from_path p\<close>: the number of images pdf2image renders, or its exception;
  \<^item> \<open>fitz_open p\<close>: the number of pages PyMuPDF opens; \<open>fitz_render i\<close>: the exception,
    if any, of rendering and saving page \<open>i\<close> (a failed save leaves no file);
  \<^item> \<open>image_save i\<close>: the exception, if any, of saving the \<open>i\<close>-th pdf2image image;
  \<^item> \<open>mkdtemp\<close>: the directory \<open>tempfile.mkdtemp()\<close> creates;
  \<^item> \<open>os_remove p\<close>: the exception, if any, of \<open>os.remove(p)\<close>;
  \<^item> \<open>web_clip p\<close>, \<open>url_fetch p\<close>: what \<open>WebClipProcessor.process\<close> and
    \<open>URLProcessor.process\<close> return (HTML parsing and HTTP are not modelled; both
    methods catch every exception and return \<open>None\<close>);
  \<^item> \<open>loads\<close>: \<open>json.loads\<close>; \<open>py_str\<close>: \<open>str()\<close> of a value that is not a str.
\<close>

record world =
  read_text :: "string \<Rightarrow> exc + string"
  read_md5 :: "string \<Rightarrow> exc + string"
  image_to_string :: "string \<Rightarrow> exc + string"
  read_pdf :: "string \<Rightarrow> exc + string list"
  pdf2image_available :: bool
  convert_from_path :: "string \<Rightarrow> exc + nat"
  fitz_available :: bool
  fitz_open :: "string \<Rightarrow> exc + nat"
  fitz_render :: "nat \<Rightarrow> exc option"
  image_save :: "nat \<Rightarrow> exc option"
  mkdtemp :: string
  os_remove :: "string \<Rightarrow> exc option"
  web_clip :: "string \<Rightarrow> proc_result option"
  url_fetch :: "string \<Rightarrow> proc_result option"
  loads :: "string \<Rightarrow> json option"
  py_str :: "json \<Rightarrow> string"

subsection \<open>ImageProcessor and DocumentProcessor\<close>

definition ImageProcessor_process :: "world \<Rightarrow> string \<Rightarrow> proc_result option" where
  "ImageProcessor_process w file_path =
     (case image_to_string w file_path of
        Inl e \<Rightarrow> None
      | Inr extracted_text \<Rightarrow>
          Some \<lparr>raw_text = extracted_text, processed_text = None,
                tags = extract_tags_heuristic extracted_text,
                tasks = extract_tasks_heuristic extracted_text,
                metadata = None\<rparr>)"

definition DocumentProcessor_process :: "world \<Rightarrow> string \<Rightarrow> proc_result option" where
  "DocumentProcessor_process w file_path =
     (case read_text w file_path of
        Inl e \<Rightarrow> None
      | Inr extracted_text \<Rightarrow>
          Some \<lparr>raw_text = extracted_text, processed_text = None,
                tags = extract_tags_heuristic extracted_text,
                tasks = extract_tasks_heuristic extracted_text,
                metadata = None\<rparr>)"

subsection \<open>PDFProcessor\<close>

text \<open>
  The local variables of \<open>PDFProcessor.process\<close> that the fallback changes, the files
  that exist (\<open>fs\<close>), and a log of the calls made to the renderers, to OCR, to the
  vision model and to \<open>os.remove\<close>. The log is not in the source: it is what the
  properties about "is run through" and "is removed" speak about.
\<close>

datatype event = Saved string | OcrCall string | VisionCall string | RemoveCall string

record pdf_state =
  extracted_text :: string
  ocr_text :: string
  images_extracted :: bool
  temp_images :: "string list"
  fs :: "string list"
  events :: "event list"

definition sq :: string where
  "sq = [CHR 0x27]"

definition nl :: string where
  "nl = [CHR 0x0A]"

text \<open>The direct extraction: \<open>extracted_text += page_text + "\n\n"\<close> for each page with
  text.\<close>

fun direct_text :: "string list \<Rightarrow> string" where
  "direct_text [] = []"
| "direct_text (page_text # pages) =
     (if page_text \<noteq> [] then page_text @ nl @ nl @ direct_text pages else direct_text pages)"

text \<open>
  \<open>words_per_page = len(extracted_text.split()) / max(1, len(pdf_reader.pages))\<close> is a
  float; \<open>words_per_page < 20\<close> holds exactly when the word count is below twenty times
  the divisor (the quotient of two counts is rounded monotonically, and 20 is a
  float).
\<close>

definition word_count :: "string \<Rightarrow> nat" where
  "word_count text = length (split_ws text)"

definition might_be_handwritten :: "string \<Rightarrow> nat \<Rightarrow> bool" where
  "might_be_handwritten text n_pages = (word_count text < 20 * max 1 n_pages)"

definition page_path :: "world \<Rightarrow> nat \<Rightarrow> string" where
  "page_path w i = mkdtemp w @ ''/page_'' @ show_nat (i + 1) @ ''.png''"

definition save_file :: "string \<Rightarrow> pdf_state \<Rightarrow> pdf_state" where
  "save_file image_path st =
     st\<lparr>temp_images := temp_images st @ [image_path],
        fs := List.insert image_path (fs st),
        events := events st @ [Saved image_path]\<rparr>"

text \<open>The PyMuPDF loop \<open>for i, page in enumerate(doc)\<close>: it stops at the first page
  whose rendering raises, with what it has saved so far.\<close>

fun fitz_loop ::
  "world \<Rightarrow> nat list \<Rightarrow> string list \<Rightarrow> pdf_state \<Rightarrow> exc option \<times> string list \<times> pdf_state" where
  "fitz_loop w [] page_images st = (None, page_images, st)"
| "fitz_loop w (i # rest) page_images st =
     (case fitz_render w i of
        Some e \<Rightarrow> (Some e, page_images, st)
      | None \<Rightarrow> fitz_loop w rest (page_images @ [page_path w i]) (save_file (page_path w i) st))"

text \<open>The pdf2image loop \<open>for i, image in enumerate(images)\<close>.\<close>

fun save_loop ::
  "world \<Rightarrow> nat list \<Rightarrow> string list \<Rightarrow> pdf_state \<Rightarrow> exc option \<times> string list \<times> pdf_state" where
  "save_loop w [] page_images st = (None, page_images, st)"
| "save_loop w (i # rest) page_images st =
     (case image_save w i of
        Some e \<Rightarrow> (Some e, page_images, st)
      | None \<Rightarrow> save_loop w rest (page_images @ [page_path w i]) (save_file (page_path w i) st))"

text \<open>
  Lines 145 to 179: \<open>convert_from_path\<close>, and in its handler the PyMuPDF fallback when
  the message names poppler. The result is the exception that leaves the statement
  (if any), \<open>page_images\<close>, \<open>images\<close> (\<open>None\<close> when the name is not bound) and the state.
  An \<open>ImportError\<close> of \<open>import fitz\<close> is raised again by its handler.
\<close>

definition render ::
  "world \<Rightarrow> string \<Rightarrow> pdf_state \<Rightarrow> exc option \<times> string list \<times> nat option \<times> pdf_state" where
  "render w file_path st =
     (case convert_from_path w file_path of
        Inr n \<Rightarrow> (None, [], Some n, st\<lparr>images_extracted := True\<rparr>)
      | Inl poppler_err \<Rightarrow>
          (if contains (lower (exc_str poppler_err)) ''poppler'' then
             (if \<not> fitz_available w
              then (Some (Exc ImportError ''No module named fitz''), [], None, st)
              else
                (case fitz_open w file_path of
                   Inl e \<Rightarrow> (Some e, [], None, st)
                 | Inr n \<Rightarrow>
                     (case fitz_loop w [0..<n] [] st of
                        (Some e, page_images, st') \<Rightarrow> (Some e, page_images, None, st')
                      | (None, page_images, st') \<Rightarrow>
                          (None, page_images, None, st'\<lparr>images_extracted := True\<rparr>))))
           else (Some poppler_err, [], None, st)))"

text \<open>The prompt of the vision call for page \<open>i + 1\<close>.\<close>

definition vision_prompt :: "string \<Rightarrow> nat \<Rightarrow> string" where
  "vision_prompt file_path i =
     ''This is page '' @ show_nat (i + 1) @ '' of a PDF document named '' @ sq @
     basename file_path @ sq @
     ''. Please extract ALL text visible in this image with perfect accuracy. Preserve the exact formatting, layout, and structure. If there are any tables, forms, or special formatting, maintain it as much as possible. Also identify any tasks, dates, or important information present.''"

text \<open>One page of the loop over \<open>page_images\<close>: OCR first (a result of at most 50
  characters is dropped, an exception is logged), then the vision model, always.\<close>

definition ocr_step :: "world \<Rightarrow> nat \<Rightarrow> string \<Rightarrow> string \<times> pdf_state \<Rightarrow> string \<times> pdf_state" where
  "ocr_step w i img_path cs =
     (let combined_text = fst cs;
          st = (snd cs)\<lparr>events := events (snd cs) @ [OcrCall img_path]\<rparr>
      in case image_to_string w img_path of
           Inl ocr_err \<Rightarrow> (combined_text, st)
         | Inr ocr_result \<Rightarrow>
             if ocr_result \<noteq> [] \<and> 50 < length ocr_result
             then (combined_text @ ''Page '' @ show_nat (i + 1) @ '':'' @ nl @ ocr_result @ nl @ nl,
                   st\<lparr>ocr_text := ocr_text st @ ocr_result @ nl @ nl\<rparr>)
             else (combined_text, st))"

definition vision_step ::
  "llm_service \<Rightarrow> string \<Rightarrow> nat \<Rightarrow> string \<Rightarrow> string \<times> pdf_state \<Rightarrow> string \<times> pdf_state" where
  "vision_step llm file_path i img_path cs =
     (let combined_text = fst cs;
          st = (snd cs)\<lparr>events := events (snd cs) @ [VisionCall img_path]\<rparr>
      in case svc_analyze_image llm img_path (vision_prompt file_path i) of
           Inl img_err \<Rightarrow> (combined_text, st)
         | Inr None \<Rightarrow> (combined_text, st)
         | Inr (Some image_analysis) \<Rightarrow>
             if image_analysis = [] then (combined_text, st)
             else if combined_text = []
             then (''Page '' @ show_nat (i + 1) @ '' (analyzed by Claude):'' @ nl @
                     image_analysis @ nl @ nl, st)
             else (combined_text @ ''Page '' @ show_nat (i + 1) @ '' (analyzed by Claude):'' @ nl @
                     image_analysis @ nl @ nl, st))"

fun page_loop ::
  "world \<Rightarrow> llm_service \<Rightarrow> string \<Rightarrow> nat \<Rightarrow> string list \<Rightarrow> string \<times> pdf_state \<Rightarrow> string \<times> pdf_state" where
  "page_loop w llm file_path i [] cs = cs"
| "page_loop w llm file_path i (img_path # rest) cs =
     page_loop w llm file_path (i + 1) rest
       (vision_step llm file_path i img_path (ocr_step w i img_path cs))"

text \<open>
  Lines 132 to 237, entered when an LLM service is there and the direct text is empty
  or sparse. Both handlers (\<open>except ImportError\<close> and \<open>except Exception\<close>) only log, so
  an exception leaves the state as it was when it was raised. \<open>save_rendered\<close> is the
  block at lines 182 to 195, which runs when \<open>images_extracted\<close> is false and \<open>images\<close>
  is bound; \<open>ocr_and_vision\<close> is the loop over \<open>page_images\<close> and the assignment that
  follows it (lines 198 to 231).
\<close>

definition save_rendered ::
  "world \<Rightarrow> nat option \<Rightarrow> string list \<Rightarrow> pdf_state \<Rightarrow> exc option \<times> string list \<times> pdf_state" where
  "save_rendered w images page_images st =
     (case images of
        Some n \<Rightarrow>
          if \<not> images_extracted st
          then (case save_loop w [0..<n] [] st of
                  (Some e, pis, st') \<Rightarrow> (Some e, pis, st')
                | (None, pis, st') \<Rightarrow> (None, pis, st'\<lparr>images_extracted := True\<rparr>))
          else (None, page_images, st)
      | None \<Rightarrow> (None, page_images, st))"

definition ocr_and_vision ::
  "world \<Rightarrow> llm_service \<Rightarrow> string \<Rightarrow> string list \<Rightarrow> pdf_state \<Rightarrow> pdf_state" where
  "ocr_and_vision w llm file_path page_images st =
     (case page_loop w llm file_path 0 page_images ([], st) of
        (combined_text, st') \<Rightarrow>
          if combined_text \<noteq> [] then st'\<lparr>extracted_text := combined_text\<rparr> else st')"

definition image_fallback :: "world \<Rightarrow> llm_service \<Rightarrow> string \<Rightarrow> pdf_state \<Rightarrow> pdf_state" where
  "image_fallback w llm file_path st =
     (if \<not> pdf2image_available w then st
      else
        (case render w file_path st of
           (Some e, page_images, images, st1) \<Rightarrow> st1
         | (None, page_images, images, st1) \<Rightarrow>
             (case save_rendered w images page_images st1 of
                (Some e, page_images2, st2) \<Rightarrow> st2
              | (None, page_images2, st2) \<Rightarrow> ocr_and_vision w llm file_path page_images2 st2)))"

text \<open>The prompts of lines 245 and 262.\<close>

definition filename_prompt :: "string \<Rightarrow> string" where
  "filename_prompt file_path =
     ''This PDF file '' @ sq @ basename file_path @ sq @
     '' appears to be image-based or contain handwritten content that couldn't be extracted by standard PDF text extraction. The file appears to be from '' @
     hd (split_on (CHR ''.'') (basename file_path)) @
     ''. Please describe what this file is likely to contain based on its filename.''"

definition extraction_prompt :: "string \<Rightarrow> string \<Rightarrow> string" where
  "extraction_prompt file_path full_text =
     ''Here is the content extracted from the PDF file '' @ sq @ basename file_path @ sq @
     ''. Please format this content clearly and readably, preserving the key information:'' @
     nl @ nl @ full_text"

text \<open>
  \<open>processed_text = summarize_content(...)\<close> followed by the log line that slices
  \<open>processed_text[:100]\<close>: on \<open>None\<close> the slice raises \<open>TypeError\<close>.
\<close>

definition summarize_logged :: "llm_service \<Rightarrow> string \<Rightarrow> string \<Rightarrow> exc + string" where
  "summarize_logged llm text title =
     (case svc_summarize_content llm text (Some title) of
        Inl e \<Rightarrow> Inl e
      | Inr None \<Rightarrow> Inl (Exc TypeError (sq @ ''NoneType'' @ sq @ '' object is not subscriptable''))
      | Inr (Some summary) \<Rightarrow> Inr summary)"

text \<open>Lines 254 to 259.\<close>

definition full_text_of :: "string \<Rightarrow> string \<Rightarrow> string" where
  "full_text_of extracted ocr =
     (if ocr \<noteq> [] \<and> extracted \<noteq> [] \<and> contains extracted ''Page'' then extracted
      else if ocr \<noteq> [] \<and> extracted \<noteq> [] then
        ''Text extracted directly from PDF:'' @ nl @ extracted @ nl @ nl @
        ''Text extracted via OCR:'' @ nl @ ocr
      else if extracted \<noteq> [] then extracted else ocr)"

text \<open>
  The body of the \<open>try\<close> at lines 241 to 286. The first component is \<open>raw_text\<close> when the
  body has bound it (it stays bound when a later statement raises); the second is the
  exception that leaves the body, or \<open>processed_text\<close>, \<open>tasks\<close> and \<open>tags\<close>.
\<close>

definition llm_body ::
  "llm_service \<Rightarrow> string \<Rightarrow> string \<Rightarrow> string \<Rightarrow>
     string option \<times> (exc + string \<times> string list \<times> string list)" where
  "llm_body llm file_path extracted ocr =
     (case (if extracted = [] \<and> ocr = []
            then (None, summarize_logged llm (filename_prompt file_path) (basename file_path))
            else
              (case svc_clean_extraction llm
                      (extraction_prompt file_path (full_text_of extracted ocr)) of
                 Inl e \<Rightarrow> (None, Inl e)
               | Inr None \<Rightarrow>
                   (None, summarize_logged llm (full_text_of extracted ocr) (basename file_path))
               | Inr (Some raw_extraction) \<Rightarrow>
                   if raw_extraction \<noteq> []
                   then (Some raw_extraction,
                         summarize_logged llm raw_extraction (basename file_path))
                   else (None,
                         summarize_logged llm (full_text_of extracted ocr) (basename file_path)))) of
        (raw, Inl e) \<Rightarrow> (raw, Inl e)
      | (raw, Inr processed) \<Rightarrow>
          (let task_source =
                 (if extracted \<noteq> [] then extracted else if ocr \<noteq> [] then ocr else processed)
           in case svc_extract_tasks llm task_source of
                Inl e \<Rightarrow> (raw, Inl e)
              | Inr tasks' \<Rightarrow>
                  (case svc_extract_tags llm task_source of
                     Inl e \<Rightarrow> (raw, Inl e)
                   | Inr tags' \<Rightarrow> (raw, Inr (processed, tasks', tags')))))"

text \<open>
  Lines 240 to 298: with an LLM service the body above and its handler, without one
  the heuristic extraction. The result is \<open>raw_text\<close> (when bound), \<open>processed_text\<close>,
  \<open>tasks\<close> and \<open>tags\<close>.
\<close>

definition enrich ::
  "llm_service option \<Rightarrow> string \<Rightarrow> string \<Rightarrow> string \<Rightarrow>
     string option \<times> string option \<times> string list \<times> string list" where
  "enrich llm_opt file_path extracted ocr =
     (case llm_opt of
        Some llm \<Rightarrow>
          (case llm_body llm file_path extracted ocr of
             (raw, Inr (processed, tasks', tags')) \<Rightarrow> (raw, Some processed, tasks', tags')
           | (raw, Inl llm_error) \<Rightarrow>
               (raw,
                Some (''LLM processing failed: '' @ exc_str llm_error @ ''. PDF contains '' @
                      (if extracted \<noteq> [] then ''text content''
                       else ''no extractable text and may be image-based'')),
                [], [''pdf'', ''scan'']))
      | None \<Rightarrow>
          (None, None, extract_tasks_heuristic extracted,
           (if extract_tags_heuristic extracted = [] \<and> extracted = [] then [''pdf'', ''scan'']
            else extract_tags_heuristic extracted)))"

text \<open>Lines 301 to 306: each path of \<open>temp_images\<close> that exists is removed; an exception
  of \<open>os.remove\<close> is logged and the file stays.\<close>

fun cleanup :: "world \<Rightarrow> string list \<Rightarrow> pdf_state \<Rightarrow> pdf_state" where
  "cleanup w [] st = st"
| "cleanup w (img_path # rest) st =
     (if img_path \<in> set (fs st) then
        (case os_remove w img_path of
           None \<Rightarrow>
             cleanup w rest
               (st\<lparr>fs := removeAll img_path (fs st),
                   events := events st @ [RemoveCall img_path]\<rparr>)
         | Some cleanup_err \<Rightarrow>
             cleanup w rest (st\<lparr>events := events st @ [RemoveCall img_path]\<rparr>))
      else cleanup w rest st)"

text \<open>Lines 312 to 317.\<close>

definition final_raw_text :: "string option \<Rightarrow> string \<Rightarrow> string \<Rightarrow> string" where
  "final_raw_text raw extracted ocr =
     (case raw of
        Some r \<Rightarrow> r
      | None \<Rightarrow>
          (if extracted \<noteq> [] then extracted
           else if ocr \<noteq> [] then ''Text extracted via OCR:'' @ nl @ ocr
           else ''No text could be extracted - may be image-based PDF''))"

text \<open>
  \<open>PDFProcessor.process\<close>, from the files that exist to the returned dict, the files that
  exist afterwards and the log. Once the PDF has been read, every statement that can
  raise stands inside a handler of its own, so the outer handler (line 333) is
  reached from the direct extraction only. The metadata \<open>PdfMeta\<close> holds \<open>pages\<close>,
  \<open>might_be_handwritten\<close>, the word count (the numerator of \<open>words_per_page\<close>), the
  page count again as its divisor, \<open>ocr_attempted\<close>, \<open>ocr_success\<close> and \<open>filename\<close>;
  \<open>PdfErrorMeta\<close> holds \<open>error\<close> and \<open>filename\<close>.
\<close>

definition PDFProcessor_process ::
  "world \<Rightarrow> llm_service option \<Rightarrow> string \<Rightarrow> string list \<Rightarrow>
     proc_result \<times> string list \<times> event list" where
  "PDFProcessor_process w llm_opt file_path disk =
     (case read_pdf w file_path of
        Inl e \<Rightarrow>
          (\<lparr>raw_text = ''Error processing PDF: '' @ exc_str e,
            processed_text =
              Some (''This PDF could not be processed due to an error: '' @ exc_str e),
            tags = [''error'', ''pdf''], tasks = [],
            metadata = Some (PdfErrorMeta (exc_str e) (basename file_path))\<rparr>,
           disk, [])
      | Inr pages \<Rightarrow>
          (let st0 = \<lparr>extracted_text = direct_text pages, ocr_text = [],
                      images_extracted = False, temp_images = [], fs = disk, events = []\<rparr>;
               mbh = might_be_handwritten (direct_text pages) (length pages);
               st1 = (case llm_opt of
                        Some llm \<Rightarrow>
                          if direct_text pages = [] \<or> mbh
                          then image_fallback w llm file_path st0 else st0
                      | None \<Rightarrow> st0);
               en = enrich llm_opt file_path (extracted_text st1) (ocr_text st1);
               st2 = cleanup w (temp_images st1) st1
           in (\<lparr>raw_text = final_raw_text (fst en) (extracted_text st1) (ocr_text st1),
                processed_text = fst (snd en),
                tags = snd (snd (snd en)),
                tasks = fst (snd (snd en)),
                metadata =
                  Some (PdfMeta (length pages) mbh (word_count (direct_text pages))
                          (max 1 (length pages)) (images_extracted st1) (ocr_text st1 \<noteq> [])
                          (basename file_path))\<rparr>,
               fs st2, events st2)))"

section \<open>NotesProcessor: the per-file entry point\<close>

text \<open>\<open>ProcessorFactory.get_processor\<close>: a table keyed by the file type, with
  \<open>BaseProcessor\<close> for every other type.\<close>

datatype processor =
  ImageProcessor | PDFProcessor | DocumentProcessor | WebClipProcessor | URLProcessor
  | AIChatProcessor | BaseProcessor

definition get_processor :: "string \<Rightarrow> processor" where
  "get_processor ftype =
     (if ftype = ''image'' then ImageProcessor
      else if ftype = ''pdf'' then PDFProcessor
      else if ftype = ''document'' then DocumentProcessor
      else if ftype = ''web_clip'' then WebClipProcessor
      else if ftype = ''url'' then URLProcessor
      else if ftype = ''ai_chat'' then AIChatProcessor
      else BaseProcessor)"

text \<open>\<open>processor.process(file_path)\<close>: a dict, \<open>None\<close>, or (for \<open>BaseProcessor\<close>) the
  exception \<open>NotImplementedError\<close>. \<open>disk\<close> is the list of the files that exist.\<close>

fun process :: "world \<Rightarrow> llm_service option \<Rightarrow> string list \<Rightarrow> processor \<Rightarrow> string \<Rightarrow> exc + proc_result option" where
  "process w llm disk ImageProcessor file_path = Inr (ImageProcessor_process w file_path)"
| "process w llm disk PDFProcessor file_path =
     Inr (Some (fst (PDFProcessor_process w llm file_path disk)))"
| "process w llm disk DocumentProcessor file_path = Inr (DocumentProcessor_process w file_path)"
| "process w llm disk WebClipProcessor file_path = Inr (web_clip w file_path)"
| "process w llm disk URLProcessor file_path = Inr (url_fetch w file_path)"
| "process w llm disk AIChatProcessor file_path =
     Inr (AIChatProcessor_process (loads w) (py_str w) (read_text w file_path))"
| "process w llm disk BaseProcessor file_path =
     Inl (Exc NotImplementedError ''Subclasses must implement process()'')"

text \<open>The loop \<open>for task_text in result['tasks']: add_task(content_id, task_text)\<close>.\<close>

definition add_task_list :: "db \<Rightarrow> datetime \<Rightarrow> nat \<Rightarrow> string list \<Rightarrow> db" where
  "add_task_list d now cid texts = foldl (\<lambda>d' text. snd (add_task d' now cid text None)) d texts"

text \<open>
  The statements of \<open>process_file\<close> from \<open>add_file\<close> on, when the processor has returned
  a dict, there is a store and the file has been hashed. All calls read the clock
  \<open>now\<close>.
\<close>

definition store_result :: "db \<Rightarrow> datetime \<Rightarrow> string \<Rightarrow> string \<Rightarrow> string \<Rightarrow> proc_result \<Rightarrow> db" where
  "store_result d now file_path ftype fhash result =
     (case add_file d now file_path ftype fhash (metadata result) of
        (fid, d1) \<Rightarrow>
          if fid \<noteq> 0 then
            (case add_content d1 now fid ''text''
                    (if raw_text result = [] \<and> ftype = ''pdf''
                     then ''No text could be extracted - this appears to be an image-based PDF''
                     else raw_text result)
                    (processed_text result) of
               (cid, d2) \<Rightarrow>
                 if cid \<noteq> 0 then
                   add_task_list
                     (if tags result \<noteq> [] then add_tags d2 cid (tags result) else d2)
                     now cid (tasks result)
                 else d2)
          else d1)"

text \<open>
  \<open>NotesProcessor.process_file\<close>: what it returns and the store afterwards
  (\<open>db_manager\<close> is \<open>None\<close> when the processor was built without a store). The whole
  body stands in \<open>try ... except Exception: return False\<close>; the statements that can
  raise (the processor, hashing the file) come before the first write to the store.
\<close>

definition process_file ::
  "world \<Rightarrow> llm_service option \<Rightarrow> string list \<Rightarrow> db option \<Rightarrow> datetime \<Rightarrow> string \<Rightarrow> string \<Rightarrow>
     bool \<times> db option" where
  "process_file w llm disk db_manager now file_path ftype =
     (case process w llm disk (get_processor ftype) file_path of
        Inl e \<Rightarrow> (False, db_manager)
      | Inr None \<Rightarrow> (False, db_manager)
      | Inr (Some result) \<Rightarrow>
          (case db_manager of
             None \<Rightarrow> (False, None)
           | Some d \<Rightarrow>
               (case read_md5 w file_path of
                  Inl e \<Rightarrow> (False, Some d)
                | Inr fhash \<Rightarrow> (True, Some (store_result d now file_path ftype fhash result)))))"

section \<open>DigestGenerator\<close>


record doc_out =
  doc_file_path :: string
  doc_content :: string

text \<open>\<open>sep.join(parts)\<close>\<close>

fun join :: "string \<Rightarrow> string list \<Rightarrow> string" where
  "join sep [] = []"
| "join sep [x] = x"
| "join sep (x # y # ys) = x @ sep @ join sep (y # ys)"





subsection \<open>Weekly digest\<close>



text \<open>
  \<open>LLMService.generate_weekly_digest\<close>: nothing for no contents, else what the API
  call returns for the condensed contents (\<open>call_api\<close> takes the two dates as the
  prompt words them and the joined summaries).
\<close>

definition content_summary :: "nat \<Rightarrow> content_dict \<Rightarrow> string" where
  "content_summary i content =
     ''Document '' @ show_nat i @ '': '' @ basename (cd_file_path content) @ '' ('' @
     cd_file_type content @ ''/'' @ cd_content_type content @ '')'' @ nl @
     ''Excerpt: '' @ take 200 (cd_content_text content) @ ''...'' @ nl"

definition LLMService_generate_weekly_digest ::
  "(string \<Rightarrow> string \<Rightarrow> string \<Rightarrow> exc + string option) \<Rightarrow>
     content_dict list \<Rightarrow> datetime \<Rightarrow> datetime \<Rightarrow> exc + string option" where
  "LLMService_generate_weekly_digest call_api cds start_date end_date =
     (if cds = [] then Inr None
      else call_api (fmt_B_d_Y start_date) (fmt_B_d_Y end_date)
             (join nl (map (\<lambda>ic. content_summary (fst ic) (snd ic))
                         (zip [1..<Suc (length cds)] cds))))"

subsection \<open>Monthly digest\<close>

















subsection \<open>Task list\<close>

text \<open>The numbered lines of the two sections.\<close>

fun active_lines :: "nat \<Rightarrow> task_row list \<Rightarrow> string" where
  "active_lines i [] = []"
| "active_lines i (task # rest) =
     (case t_due_date task of
        Some due \<Rightarrow>
          show_nat i @ ''. '' @ t_task_text task @ '' (Due: '' @ fmt_B_d_Y due @ '')'' @ nl
      | None \<Rightarrow> show_nat i @ ''. '' @ t_task_text task @ nl)
     @ active_lines (i + 1) rest"

fun completed_lines :: "nat \<Rightarrow> task_row list \<Rightarrow> string" where
  "completed_lines i [] = []"
| "completed_lines i (task # rest) =
     show_nat i @ ''. ~~'' @ t_task_text task @ ''~~'' @ nl @ completed_lines (i + 1) rest"

text \<open>
  \<open>generate_task_list(include_completed)\<close>: the tasks come from \<open>get_tasks\<close>, in its
  order; when it gives none, from the table itself (the tasks not completed); when
  there are still none, the document says so.
\<close>

definition task_list_rows :: "db \<Rightarrow> bool \<Rightarrow> task_row list" where
  "task_list_rows d include_completed =
     (if get_tasks d (if include_completed then None else Some False) = []
      then filter (\<lambda>t. \<not> t_completed t) (tbl_tasks d)
      else get_tasks d (if include_completed then None else Some False))"

definition generate_task_list :: "db \<Rightarrow> datetime \<Rightarrow> bool \<Rightarrow> doc_out" where
  "generate_task_list d now include_completed =
     (let rows = task_list_rows d include_completed;
          active_tasks = filter (\<lambda>t. \<not> t_completed t) rows;
          completed_tasks = filter t_completed rows
      in \<lparr>doc_file_path = ''digests/task_list_'' @ fmt_Y_m_d now @ ''.md'',
          doc_content =
            ''# Task List'' @ nl @ nl @
            ''Generated on: '' @ fmt_B_d_Y now @ nl @ nl @
            (if rows = [] then
               ''## No Tasks Found'' @ nl @ nl @
               ''There are currently no tasks in the system.'' @ nl
             else
               ''## Active Tasks'' @ nl @ nl @
               (if active_tasks \<noteq> [] then active_lines 1 active_tasks
                else ''No active tasks.'' @ nl) @
               (if include_completed \<and> completed_tasks \<noteq> []
                then nl @ ''## Completed Tasks'' @ nl @ nl @ completed_lines 1 completed_tasks
                else []))\<rparr>)"

section \<open>Notions the properties are stated with\<close>

subsection \<open>Shapes of a chat file\<close>







subsection \<open>Concrete inputs\<close>

text \<open>
  A world in which every library call succeeds: a PDF of one page without a text
  layer, pdf2image rendering one image, PyMuPDF opening two pages. The other worlds
  change one answer each.
\<close>

definition plain_world :: world where
  "plain_world =
     \<lparr>read_text = (\<lambda>p. Inr ''Meeting notes''),
      read_md5 = (\<lambda>p. Inr ''9e107d9d372bb6826bd81d3542a419d6''),
      image_to_string = (\<lambda>p. Inr []),
      read_pdf = (\<lambda>p. Inr ['''']),
      pdf2image_available = True,
      convert_from_path = (\<lambda>p. Inr 1),
      fitz_available = True,
      fitz_open = (\<lambda>p. Inr 2),
      fitz_render = (\<lambda>i. None),
      image_save = (\<lambda>i. None),
      mkdtemp = ''/tmp/tmpk3'',
      os_remove = (\<lambda>p. None),
      web_clip = (\<lambda>p. None),
      url_fetch = (\<lambda>p. None),
      loads = json_loads,
      py_str = (\<lambda>v. [])\<rparr>"

text \<open>A PDF whose one page has a text layer of twenty words.\<close>

definition twenty_words :: string where
  "twenty_words = ''one two three four five six seven eight nine ten eleven twelve thirteen fourteen fifteen sixteen seventeen eighteen nineteen twenty''"

definition text_world :: world where
  "text_world = plain_world\<lparr>read_pdf := (\<lambda>p. Inr [twenty_words])\<rparr>"

text \<open>pdf2image reports that poppler is missing, so PyMuPDF renders the pages.\<close>

definition poppler_world :: world where
  "poppler_world =
     plain_world\<lparr>convert_from_path :=
       (\<lambda>p. Inl (Exc RuntimeError ''Unable to get page count. Is poppler installed and in PATH?''))\<rparr>"

text \<open>As before, and the first page image cannot be removed.\<close>

definition locked_world :: world where
  "locked_world =
     poppler_world\<lparr>os_remove :=
       (\<lambda>p. if p = ''/tmp/tmpk3/page_1.png'' then Some (Exc OSError ''Permission denied'') else None)\<rparr>"


text \<open>An LLM service that answers every call; its weekly digest is
  \<open>LLMService.generate_weekly_digest\<close> over an API that gives up.\<close>

definition some_llm :: llm_service where
  "some_llm =
     \<lparr>svc_analyze_image = (\<lambda>p q. Inr (Some ''Transcribed page'')),
      svc_clean_extraction = (\<lambda>t. Inr (Some ''Cleaned text'')),
      svc_summarize_content = (\<lambda>t title. Inr (Some ''A summary'')),
      svc_extract_tasks = (\<lambda>t. Inr []),
      svc_extract_tags = (\<lambda>t. Inr [''notes'']),
      svc_generate_weekly_digest = LLMService_generate_weekly_digest (\<lambda>s e u. Inr None),
      svc_analyze_trends = (\<lambda>ds. Inr (Some ''Trends across the weeks''))\<rparr>"

text \<open>A reading of the clock.\<close>

definition jan5 :: datetime where
  "jan5 = \<lparr>dt_year = 2025, dt_month = 1, dt_day = 5, dt_hour = 9, dt_minute = 30, dt_second = 0\<rparr>"

subsection \<open>Temporary images that are accounted for\<close>

text \<open>
  A state of \<open>PDFProcessor.process\<close> is tracked when every image the log says was saved
  is in \<open>temp_images\<close>, and every path of \<open>temp_images\<close> exists.
\<close>

definition tracked :: "pdf_state \<Rightarrow> bool" where
  "tracked st =
     (list_all (\<lambda>e. case e of Saved p \<Rightarrow> p \<in> set (temp_images st) | _ \<Rightarrow> True) (events st) \<and>
      list_all (\<lambda>p. p \<in> set (fs st)) (temp_images st))"

text \<open>A store with one file and the tags "work" and "ideas" on its content.\<close>

definition two_tags_db :: db where
  "two_tags_db = add_tags (snd (add_file empty_db jan5 ''/notes/a.txt'' ''document'' ''0cc175b9'' None)) 1 [''work'', ''ideas'']"

text \<open>
  A store after one document has been processed; the same store after a weekly
  digest has been generated on January 12 by a service that writes one; and the
  store with the three tasks of the task-ordering example: no due date, due on
  2025-01-01, and completed without a due date.
\<close>

definition jan1 :: datetime where
  "jan1 = \<lparr>dt_year = 2025, dt_month = 1, dt_day = 1, dt_hour = 0, dt_minute = 0, dt_second = 0\<rparr>"

definition jan7 :: datetime where
  "jan7 = \<lparr>dt_year = 2025, dt_month = 1, dt_day = 7, dt_hour = 8, dt_minute = 0, dt_second = 0\<rparr>"



definition one_note_db :: db where
  "one_note_db =
     (case snd (process_file plain_world None [] (Some empty_db) jan5 ''/notes/a.txt'' ''document'') of
        Some d \<Rightarrow> d
      | None \<Rightarrow> empty_db)"



definition three_tasks_db :: db where
  "three_tasks_db =
     update_task_status
       (snd (add_task
          (snd (add_task
             (snd (add_task one_note_db jan5 1 ''Buy milk'' None))
             jan5 1 ''File taxes'' (Some jan1)))
          jan5 1 ''Book flights'' None))
       3 True"

section \<open>Properties\<close>

subsection \<open>PDFProcessor: a PDF with a text layer\<close>

lemma llm_body_raw:
  "extracted \<noteq> [] \<Longrightarrow>
   fst (llm_body llm fp extracted []) =
     (case svc_clean_extraction llm (extraction_prompt fp extracted) of
        Inr (Some r) \<Rightarrow> if r \<noteq> [] then Some r else None
      | _ \<Rightarrow> None)"
  by (auto simp: llm_body_def full_text_of_def Let_def split: sum.splits option.splits prod.splits)

lemma enrich_raw:
  "extracted \<noteq> [] \<Longrightarrow>
   fst (enrich llm_opt fp extracted []) =
     (case llm_opt of
        None \<Rightarrow> None
      | Some llm \<Rightarrow>
          (case svc_clean_extraction llm (extraction_prompt fp extracted) of
             Inr (Some r) \<Rightarrow> if r \<noteq> [] then Some r else None
           | _ \<Rightarrow> None))"
proof (cases llm_opt)
  case None
  then show ?thesis by (simp add: enrich_def)
next
  case (Some llm)
  assume ne: "extracted \<noteq> []"
  have "fst (enrich (Some llm) fp extracted []) = fst (llm_body llm fp extracted [])"
    by (simp add: enrich_def split: prod.splits sum.splits)
  with Some llm_body_raw [OF ne] show ?thesis by simp
qed

text \<open>
  C1, as stated, fails in its second half: with an LLM service whose
  \<open>clean_extraction\<close> returns a text, \<open>raw_text\<close> is that text ("Store the clean extraction
  as raw text", line 267), not the text read from the pages. Here the PDF has one
  page of twenty words.
\<close>

theorem cleaned_text_replaces_direct_counterexample:
  "read_pdf text_world ''/notes/report.pdf'' = Inr [twenty_words] \<and>
   direct_text [twenty_words] \<noteq> [] \<and>
   \<not> might_be_handwritten (direct_text [twenty_words]) (length [twenty_words]) \<and>
   raw_text (fst (PDFProcessor_process text_world (Some some_llm) ''/notes/report.pdf'' []))
     = ''Cleaned text'' \<and>
   ''Cleaned text'' \<noteq> direct_text [twenty_words]"
  by code_simp

text \<open>
  C1, amended: for every PDF whose direct extraction yields a non-empty text with
  \<open>words_per_page >= 20\<close>, \<open>PDFProcessor.process\<close> renders no image, calls neither OCR
  nor the vision model and leaves the files as they are; \<open>raw_text\<close> is the text of the
  pages (each page with text followed by a blank line) when there is no LLM service
  or its \<open>clean_extraction\<close> gives no text, and the text \<open>clean_extraction\<close> returns
  otherwise.
\<close>

theorem direct_text_sufficient:
  assumes "read_pdf w file_path = Inr pages"
    and "direct_text pages \<noteq> []"
    and "\<not> might_be_handwritten (direct_text pages) (length pages)"
  shows "snd (PDFProcessor_process w llm_opt file_path disk) = (disk, []) \<and>
         raw_text (fst (PDFProcessor_process w llm_opt file_path disk)) =
           (case llm_opt of
              None \<Rightarrow> direct_text pages
            | Some llm \<Rightarrow>
                (case svc_clean_extraction llm (extraction_prompt file_path (direct_text pages)) of
                   Inr (Some cleaned) \<Rightarrow> if cleaned \<noteq> [] then cleaned else direct_text pages
                 | _ \<Rightarrow> direct_text pages))"
proof -
  let ?st0 = "\<lparr>extracted_text = direct_text pages, ocr_text = [], images_extracted = False,
               temp_images = [], fs = disk, events = []\<rparr>"
  have st1: "(case llm_opt of
                Some llm \<Rightarrow>
                  if direct_text pages = [] \<or> might_be_handwritten (direct_text pages) (length pages)
                  then image_fallback w llm file_path ?st0 else ?st0
              | None \<Rightarrow> ?st0) = ?st0"
    using assms(2,3) by (simp split: option.splits)
  have p: "PDFProcessor_process w llm_opt file_path disk =
       (\<lparr>raw_text = final_raw_text (fst (enrich llm_opt file_path (direct_text pages) []))
                     (direct_text pages) [],
         processed_text = fst (snd (enrich llm_opt file_path (direct_text pages) [])),
         tags = snd (snd (snd (enrich llm_opt file_path (direct_text pages) []))),
         tasks = fst (snd (snd (enrich llm_opt file_path (direct_text pages) []))),
         metadata = Some (PdfMeta (length pages) False (word_count (direct_text pages))
                            (max 1 (length pages)) False False (basename file_path))\<rparr>,
        disk, [])"
    unfolding PDFProcessor_process_def Let_def using assms st1 by simp
  show ?thesis
    unfolding p using assms(2)
    by (simp add: enrich_raw final_raw_text_def split: option.splits sum.splits)
qed

theorem direct_text_sufficient_witness:
  "read_pdf text_world ''/notes/report.pdf'' = Inr [twenty_words] \<and>
   direct_text [twenty_words] \<noteq> [] \<and>
   \<not> might_be_handwritten (direct_text [twenty_words]) (length [twenty_words]) \<and>
   snd (PDFProcessor_process text_world None ''/notes/report.pdf'' [''/notes/report.pdf''])
     = ([''/notes/report.pdf''], []) \<and>
   raw_text (fst (PDFProcessor_process text_world None ''/notes/report.pdf'' [''/notes/report.pdf'']))
     = direct_text [twenty_words]"
proof -
  have h1: "read_pdf text_world ''/notes/report.pdf'' = Inr [twenty_words]"
    by (simp add: text_world_def)
  have h2: "direct_text [twenty_words] \<noteq> []"
    by code_simp
  have h3: "\<not> might_be_handwritten (direct_text [twenty_words]) (length [twenty_words])"
    by code_simp
  from direct_text_sufficient [OF h1 h2 h3, of None "[''/notes/report.pdf'']"] h1 h2 h3
  show ?thesis by simp
qed

subsection \<open>PDFProcessor: pages rendered by pdf2image\<close>

text \<open>
  C2 does not hold of the code. When \<open>convert_from_path\<close> succeeds, line 147 sets
  \<open>images_extracted = True\<close>, so the block that saves the rendered images and fills
  \<open>page_images\<close> (guarded by \<open>not images_extracted\<close>, line 182) is skipped and the loop
  over \<open>page_images\<close> has nothing to do: for a scanned PDF of one page that pdf2image
  renders, no image is saved, OCR and the vision model are never called (the log is
  empty), and the result still reports \<open>ocr_attempted\<close>.
\<close>

theorem pdf2image_pages_not_processed:
  "convert_from_path plain_world ''/notes/scan.pdf'' = Inr 1 \<and>
   PDFProcessor_process plain_world (Some some_llm) ''/notes/scan.pdf'' [] =
     (\<lparr>raw_text = ''No text could be extracted - may be image-based PDF'',
       processed_text = Some ''A summary'', tags = [''notes''], tasks = [],
       metadata = Some (PdfMeta 1 True 0 1 True False ''scan.pdf'')\<rparr>, [], [])"
  by code_simp

subsection \<open>process_file when the extractor fails\<close>





lemma process_file_raise:
  "process w llm disk (get_processor ftype) file_path = Inl e \<Longrightarrow>
   process_file w llm disk db_manager now file_path ftype = (False, db_manager)"
  by (simp add: process_file_def)





subsection \<open>Weekly digest when the LLM gives no text\<close>




subsection \<open>Monthly digest: when trends are analysed\<close>


subsection \<open>Task list: the order of the tasks\<close>

text \<open>
  C6 does not hold of the code. \<open>get_tasks\<close> builds its query with "NULLS LAST" and then
  cuts these words out before running it ("SQLite might not support NULLS LAST, so
  we'll handle it differently", with nothing done in their place); in the ascending
  order that is left, SQLite puts a missing due date first. For the three tasks of the
  claim the task without a due date is listed before the task due on 2025-01-01; the
  completed task comes last.
\<close>

theorem null_due_task_listed_first:
  "map (\<lambda>t. (t_task_text t, t_completed t, t_due_date t)) (tbl_tasks three_tasks_db) =
     [(''Buy milk'', False, None), (''File taxes'', False, Some jan1), (''Book flights'', True, None)] \<and>
   map t_task_text (get_tasks three_tasks_db None) = [''Buy milk'', ''File taxes'', ''Book flights''] \<and>
   doc_content (generate_task_list three_tasks_db jan7 True) =
     ''# Task List'' @ nl @ nl @ ''Generated on: January 07, 2025'' @ nl @ nl @
     ''## Active Tasks'' @ nl @ nl @
     ''1. Buy milk'' @ nl @
     ''2. File taxes (Due: January 01, 2025)'' @ nl @ nl @
     ''## Completed Tasks'' @ nl @ nl @
     ''1. ~~Book flights~~'' @ nl"
  by code_simp
subsection \<open>The store: one file per path, one tag per name\<close>

lemma count_distinct:
  "distinct (map f xs) \<Longrightarrow> p \<in> set (map f xs) \<Longrightarrow> length (filter (\<lambda>x. f x = p) xs) = 1"
proof (induction xs)
  case Nil
  then show ?case by simp
next
  case (Cons x xs)
  show ?case
  proof (cases "f x = p")
    case True
    with Cons.prems have "p \<notin> set (map f xs)" by auto
    then have "filter (\<lambda>x. f x = p) xs = []" by (auto simp: filter_empty_conv)
    with True show ?thesis by simp
  next
    case False
    with Cons show ?thesis by auto
  qed
qed

lemma add_file_again:
  "snd (add_file (snd (add_file d now p ft h m)) now' p ft' h' m') = snd (add_file d now p ft h m) \<and>
   fst (add_file (snd (add_file d now p ft h m)) now' p ft' h' m') = 0"
  by (simp add: add_file_def)

lemma add_file_paths:
  assumes "distinct (map f_file_path (tbl_files d))"
  shows "distinct (map f_file_path (tbl_files (snd (add_file d now p ft h m))))"
    and "p \<in> set (map f_file_path (tbl_files (snd (add_file d now p ft h m))))"
  using assms by (auto simp: add_file_def)

lemma add_tag_names:
  "distinct (map tg_name (tbl_tags d)) \<Longrightarrow> distinct (map tg_name (tbl_tags (add_tag cid d name)))"
  by (auto simp: add_tag_def Let_def split: option.splits)

lemma add_tags_names:
  "distinct (map tg_name (tbl_tags d)) \<Longrightarrow> distinct (map tg_name (tbl_tags (add_tags d cid names)))"
  unfolding add_tags_def
  by (induction names arbitrary: d) (auto simp: add_tag_names)

lemma tag_id_of_name: "tag_id_of rows name = Some tid \<Longrightarrow> name \<in> set (map tg_name rows)"
  by (induction rows) (auto simp: tag_id_of_def split: if_splits)

lemma add_existing_tag:
  assumes "tag_id_of (tbl_tags d) name = Some tid"
  shows "tbl_tags (add_tags d cid [name]) = tbl_tags d"
    and "seq_tags (add_tags d cid [name]) = seq_tags d"
    and "(cid, tid) \<in> set (tbl_content_tags (add_tags d cid [name]))"
  using assms tag_id_of_name [OF assms]
  by (auto simp: add_tags_def add_tag_def Let_def)

text \<open>
  C7, as stated, fails in its first half: the table \<open>files\<close> is unique on \<open>file_path\<close>,
  not on \<open>file_hash\<close>, so the same content under two paths is stored as two files.
  Here two documents with the same content (and so the same MD5 hash) go through
  \<open>process_file\<close>, one after the other.
\<close>

theorem same_hash_two_paths_counterexample:
  "read_md5 plain_world ''/notes/a.txt'' = read_md5 plain_world ''/notes/copy_of_a.txt'' \<and>
   (case snd (process_file plain_world None []
                (snd (process_file plain_world None [] (Some empty_db) jan5 ''/notes/a.txt'' ''document''))
                jan5 ''/notes/copy_of_a.txt'' ''document'') of
      None \<Rightarrow> []
    | Some d \<Rightarrow> map (\<lambda>f. (f_file_path f, f_file_hash f)) (tbl_files d))
   = [(''/notes/a.txt'', ''9e107d9d372bb6826bd81d3542a419d6''),
      (''/notes/copy_of_a.txt'', ''9e107d9d372bb6826bd81d3542a419d6'')]"
  by code_simp

text \<open>
  C7, amended: adding a file under a path a second time stores nothing (the call
  returns the id 0) and leaves exactly one file of that path, whatever the hash;
  tag names stay unique under \<open>add_tags\<close>, and adding a name that is there leaves the
  table of tags as it is and links the content to the id the tag has.
\<close>

theorem file_unique_by_path_tags_by_name:
  "(distinct (map f_file_path (tbl_files d)) \<longrightarrow>
      length (filter (\<lambda>f. f_file_path f = p)
                (tbl_files (snd (add_file (snd (add_file d now p ft h m)) now' p ft' h' m')))) = 1 \<and>
      fst (add_file (snd (add_file d now p ft h m)) now' p ft' h' m') = 0) \<and>
   (distinct (map tg_name (tbl_tags d)) \<longrightarrow>
      distinct (map tg_name (tbl_tags (add_tags d cid names)))) \<and>
   (tag_id_of (tbl_tags d) name = Some tid \<longrightarrow>
      tbl_tags (add_tags d cid [name]) = tbl_tags d \<and>
      (cid, tid) \<in> set (tbl_content_tags (add_tags d cid [name])))"
proof (intro conjI impI)
  assume dp: "distinct (map f_file_path (tbl_files d))"
  show "length (filter (\<lambda>f. f_file_path f = p)
                (tbl_files (snd (add_file (snd (add_file d now p ft h m)) now' p ft' h' m')))) = 1"
    unfolding add_file_again [THEN conjunct1]
    using add_file_paths [OF dp] by (rule count_distinct)
qed (simp_all add: add_file_again add_tags_names add_existing_tag)

theorem file_unique_by_path_tags_by_name_witness:
  "distinct (map f_file_path (tbl_files two_tags_db)) \<and>
   length (filter (\<lambda>f. f_file_path f = ''/notes/a.txt'')
             (tbl_files (snd (add_file (snd (add_file two_tags_db jan5 ''/notes/a.txt'' ''document'' ''0cc175b9'' None))
                                jan5 ''/notes/a.txt'' ''document'' ''0cc175b9'' None)))) = 1 \<and>
   distinct (map tg_name (tbl_tags two_tags_db)) \<and>
   distinct (map tg_name (tbl_tags (add_tags two_tags_db 2 [''work'', ''home'', ''work'']))) \<and>
   tag_id_of (tbl_tags two_tags_db) ''work'' = Some 1 \<and>
   tbl_tags (add_tags two_tags_db 2 [''work'']) = tbl_tags two_tags_db \<and>
   (2, 1) \<in> set (tbl_content_tags (add_tags two_tags_db 2 [''work'']))"
proof -
  have h1: "distinct (map f_file_path (tbl_files two_tags_db))" by code_simp
  have h2: "distinct (map tg_name (tbl_tags two_tags_db))" by code_simp
  have h3: "tag_id_of (tbl_tags two_tags_db) ''work'' = Some 1" by code_simp
  from file_unique_by_path_tags_by_name
         [of two_tags_db "''/notes/a.txt''" jan5 "''document''" "''0cc175b9''" None jan5
             "''document''" "''0cc175b9''" None 2 "[''work'', ''home'', ''work'']" "''work''" 1]
       h1 h2 h3
  show ?thesis by blast
qed

subsection \<open>PDFProcessor: the temporary page images\<close>

lemma trackedD:
  "tracked st \<Longrightarrow> Saved p \<in> set (events st) \<Longrightarrow> p \<in> set (temp_images st) \<and> p \<in> set (fs st)"
  unfolding tracked_def list_all_iff by (auto split: event.splits)

lemma tracked_save_file: "tracked st \<Longrightarrow> tracked (save_file p st)"
  unfolding tracked_def list_all_iff save_file_def by (auto split: event.splits)

lemma tracked_fitz_loop:
  "tracked st \<Longrightarrow> tracked (snd (snd (fitz_loop w pages_left pis st)))"
  by (induction pages_left arbitrary: pis st) (auto simp: tracked_save_file split: option.splits)

lemma tracked_save_loop:
  "tracked st \<Longrightarrow> tracked (snd (snd (save_loop w pages_left pis st)))"
  by (induction pages_left arbitrary: pis st) (auto simp: tracked_save_file split: option.splits)

lemma tracked_flag: "tracked st \<Longrightarrow> tracked (st\<lparr>images_extracted := b\<rparr>)"
  unfolding tracked_def list_all_iff by (auto split: event.splits)

lemma tracked_text: "tracked st \<Longrightarrow> tracked (st\<lparr>extracted_text := t\<rparr>)"
  unfolding tracked_def list_all_iff by (auto split: event.splits)

lemma tracked_fitz_loop_eq:
  "fitz_loop w pages_left pis st = (e, pis', st') \<Longrightarrow> tracked st \<Longrightarrow> tracked st'"
  using tracked_fitz_loop [of st w pages_left pis] by simp

lemma tracked_save_loop_eq:
  "save_loop w pages_left pis st = (e, pis', st') \<Longrightarrow> tracked st \<Longrightarrow> tracked st'"
  using tracked_save_loop [of st w pages_left pis] by simp

lemma tracked_render:
  assumes "tracked st"
  shows "tracked (snd (snd (snd (render w p st))))"
  unfolding render_def using assms
  by (auto split: sum.splits option.splits prod.splits
      simp: tracked_flag dest: tracked_fitz_loop_eq)

lemma tracked_render_eq:
  "render w p st = (e, pis, imgs, st') \<Longrightarrow> tracked st \<Longrightarrow> tracked st'"
  using tracked_render [of st w p] by simp

lemma tracked_ocr_step: "tracked (snd cs) \<Longrightarrow> tracked (snd (ocr_step w i img cs))"
  unfolding tracked_def list_all_iff ocr_step_def Let_def
  by (auto split: event.splits sum.splits)

lemma tracked_vision_step: "tracked (snd cs) \<Longrightarrow> tracked (snd (vision_step llm fp i img cs))"
  unfolding tracked_def list_all_iff vision_step_def Let_def
  by (auto split: event.splits sum.splits option.splits)

lemma tracked_page_loop:
  "tracked (snd cs) \<Longrightarrow> tracked (snd (page_loop w llm fp i imgs cs))"
  by (induction imgs arbitrary: i cs) (auto simp: tracked_ocr_step tracked_vision_step)

lemma tracked_page_loop_eq:
  "page_loop w llm fp i imgs cs = (t, st') \<Longrightarrow> tracked (snd cs) \<Longrightarrow> tracked st'"
  using tracked_page_loop [of cs w llm fp i imgs] by simp

lemma tracked_save_rendered_eq:
  "save_rendered w images pis st = (e, pis', st') \<Longrightarrow> tracked st \<Longrightarrow> tracked st'"
  unfolding save_rendered_def
  by (auto split: option.splits if_splits prod.splits simp: tracked_flag
      dest: tracked_save_loop_eq)

lemma tracked_ocr_and_vision: "tracked st \<Longrightarrow> tracked (ocr_and_vision w llm fp pis st)"
  unfolding ocr_and_vision_def
  by (auto split: prod.splits simp: tracked_text dest: tracked_page_loop_eq)

lemma tracked_image_fallback:
  assumes "tracked st"
  shows "tracked (image_fallback w llm fp st)"
proof (cases "pdf2image_available w")
  case False
  with assms show ?thesis by (simp add: image_fallback_def)
next
  case True
  obtain e pis imgs st1 where r: "render w fp st = (e, pis, imgs, st1)"
    by (cases "render w fp st") auto
  with assms have t1: "tracked st1" by (auto dest: tracked_render_eq)
  show ?thesis
  proof (cases e)
    case (Some err)
    with True r t1 show ?thesis by (simp add: image_fallback_def)
  next
    case None
    obtain e2 pis2 st2 where s: "save_rendered w imgs pis st1 = (e2, pis2, st2)"
      by (cases "save_rendered w imgs pis st1") auto
    with t1 have t2: "tracked st2" by (auto dest: tracked_save_rendered_eq)
    from True r s None t2 show ?thesis
      by (cases e2) (simp_all add: image_fallback_def tracked_ocr_and_vision)
  qed
qed

lemma cleanup_events_mono: "e \<in> set (events st) \<Longrightarrow> e \<in> set (events (cleanup w ps st))"
  by (induction ps arbitrary: st) (auto split: option.splits)

lemma cleanup_step:
  "cleanup w (q # ps) st =
     cleanup w ps
       (if q \<in> set (fs st) then
          (case os_remove w q of
             None \<Rightarrow> st\<lparr>fs := removeAll q (fs st), events := events st @ [RemoveCall q]\<rparr>
           | Some err \<Rightarrow> st\<lparr>events := events st @ [RemoveCall q]\<rparr>)
        else st)"
  by (simp split: option.splits)

lemma cleanup_fs_subset: "set (fs (cleanup w ps st)) \<subseteq> set (fs st)"
proof (induction ps arbitrary: st)
  case Nil
  show ?case by simp
next
  case (Cons q ps)
  let ?st = "if q \<in> set (fs st) then
          (case os_remove w q of
             None \<Rightarrow> st\<lparr>fs := removeAll q (fs st), events := events st @ [RemoveCall q]\<rparr>
           | Some err \<Rightarrow> st\<lparr>events := events st @ [RemoveCall q]\<rparr>)
        else st"
  have "set (fs ?st) \<subseteq> set (fs st)" by (auto split: option.splits)
  with Cons.IH [of ?st] show ?case unfolding cleanup_step by blast
qed

lemma cleanup_saved:
  "Saved p \<in> set (events (cleanup w ps st)) \<longleftrightarrow> Saved p \<in> set (events st)"
proof (induction ps arbitrary: st)
  case Nil
  show ?case by simp
next
  case (Cons q ps)
  let ?st = "if q \<in> set (fs st) then
          (case os_remove w q of
             None \<Rightarrow> st\<lparr>fs := removeAll q (fs st), events := events st @ [RemoveCall q]\<rparr>
           | Some err \<Rightarrow> st\<lparr>events := events st @ [RemoveCall q]\<rparr>)
        else st"
  have "Saved p \<in> set (events ?st) \<longleftrightarrow> Saved p \<in> set (events st)"
    by (auto split: option.splits)
  with Cons.IH [of ?st] show ?case unfolding cleanup_step by blast
qed

lemma cleanup_removes:
  "p \<in> set ps \<Longrightarrow> p \<in> set (fs st) \<Longrightarrow>
   RemoveCall p \<in> set (events (cleanup w ps st)) \<and>
   (os_remove w p = None \<longrightarrow> p \<notin> set (fs (cleanup w ps st)))"
proof (induction ps arbitrary: st)
  case Nil
  then show ?case by simp
next
  case (Cons q ps)
  show ?case
  proof (cases "q = p")
    case True
    show ?thesis
    proof (cases "os_remove w p")
      case None
      let ?st = "st\<lparr>fs := removeAll p (fs st), events := events st @ [RemoveCall p]\<rparr>"
      have c: "cleanup w (q # ps) st = cleanup w ps ?st"
        using True None Cons.prems(2) by simp
      have "RemoveCall p \<in> set (events (cleanup w ps ?st))"
        by (rule cleanup_events_mono) simp
      moreover have "p \<notin> set (fs (cleanup w ps ?st))"
        using cleanup_fs_subset [of w ps ?st] by auto
      ultimately show ?thesis using c by simp
    next
      case (Some err)
      let ?st = "st\<lparr>events := events st @ [RemoveCall p]\<rparr>"
      have c: "cleanup w (q # ps) st = cleanup w ps ?st"
        using True Some Cons.prems(2) by simp
      have "RemoveCall p \<in> set (events (cleanup w ps ?st))"
        by (rule cleanup_events_mono) simp
      then show ?thesis using c Some by simp
    qed
  next
    case False
    with Cons.prems have "p \<in> set ps" by simp
    with False Cons.prems(2) Cons.IH show ?thesis
      by (auto split: option.splits)
  qed
qed

text \<open>
  C8, as stated, fails: when \<open>os.remove\<close> raises for a page image, the handler inside
  the cleanup loop logs a warning and the image is still there when \<open>process\<close>
  returns. Here PyMuPDF has rendered two pages and the first image cannot be removed.
\<close>

theorem locked_image_stays_counterexample:
  "Saved ''/tmp/tmpk3/page_1.png''
     \<in> set (snd (snd (PDFProcessor_process locked_world (Some some_llm) ''/notes/scan.pdf'' []))) \<and>
   ''/tmp/tmpk3/page_1.png''
     \<in> set (fst (snd (PDFProcessor_process locked_world (Some some_llm) ''/notes/scan.pdf'' [])))"
  by code_simp

text \<open>
  C8, amended: for every temporary page image saved during \<open>PDFProcessor.process\<close>,
  whatever the renderers, OCR, the vision model and the LLM calls return or raise,
  \<open>os.remove\<close> is called on it before the method returns, and the image does not exist
  afterwards unless that call itself fails.
\<close>

theorem temp_images_cleaned:
  "Saved p \<in> set (snd (snd (PDFProcessor_process w llm_opt file_path disk))) \<Longrightarrow>
   RemoveCall p \<in> set (snd (snd (PDFProcessor_process w llm_opt file_path disk))) \<and>
   (os_remove w p = None \<longrightarrow> p \<notin> set (fst (snd (PDFProcessor_process w llm_opt file_path disk))))"
proof (cases "read_pdf w file_path")
  case (Inl e)
  assume "Saved p \<in> set (snd (snd (PDFProcessor_process w llm_opt file_path disk)))"
  with Inl show ?thesis by (simp add: PDFProcessor_process_def)
next
  case (Inr pages)
  assume saved: "Saved p \<in> set (snd (snd (PDFProcessor_process w llm_opt file_path disk)))"
  let ?st0 = "\<lparr>extracted_text = direct_text pages, ocr_text = [],
       images_extracted = False, temp_images = [], fs = disk, events = []\<rparr>"
  let ?st1 = "(case llm_opt of
       Some llm \<Rightarrow>
         if direct_text pages = [] \<or> might_be_handwritten (direct_text pages) (length pages)
         then image_fallback w llm file_path ?st0 else ?st0
     | None \<Rightarrow> ?st0)"
  have t0: "tracked ?st0" by (simp add: tracked_def)
  have t1: "tracked ?st1"
    using t0 by (auto split: option.splits simp: tracked_image_fallback)
  have ev: "snd (snd (PDFProcessor_process w llm_opt file_path disk)) =
      events (cleanup w (temp_images ?st1) ?st1)"
    and fsq: "fst (snd (PDFProcessor_process w llm_opt file_path disk)) =
      fs (cleanup w (temp_images ?st1) ?st1)"
    unfolding PDFProcessor_process_def Let_def by (simp_all only: Inr sum.case fst_conv snd_conv)
  from saved ev have "Saved p \<in> set (events ?st1)" by (simp only: cleanup_saved)
  with t1 have "p \<in> set (temp_images ?st1)" "p \<in> set (fs ?st1)"
    by (auto dest: trackedD)
  then show ?thesis using cleanup_removes [of p "temp_images ?st1" ?st1 w] ev fsq by simp
qed

theorem temp_images_cleaned_witness:
  "Saved ''/tmp/tmpk3/page_1.png''
     \<in> set (snd (snd (PDFProcessor_process poppler_world (Some some_llm) ''/notes/scan.pdf'' []))) \<and>
   os_remove poppler_world ''/tmp/tmpk3/page_1.png'' = None \<and>
   RemoveCall ''/tmp/tmpk3/page_1.png''
     \<in> set (snd (snd (PDFProcessor_process poppler_world (Some some_llm) ''/notes/scan.pdf'' []))) \<and>
   ''/tmp/tmpk3/page_1.png''
     \<notin> set (fst (snd (PDFProcessor_process poppler_world (Some some_llm) ''/notes/scan.pdf'' [])))"
proof -
  have s: "Saved ''/tmp/tmpk3/page_1.png''
     \<in> set (snd (snd (PDFProcessor_process poppler_world (Some some_llm) ''/notes/scan.pdf'' [])))"
    by code_simp
  have r: "os_remove poppler_world ''/tmp/tmpk3/page_1.png'' = None"
    by code_simp
  from temp_images_cleaned [OF s] r s show ?thesis by blast
qed

subsection \<open>extract_tasks and extract_tags on a reply that is not a JSON array of strings\<close>




subsection \<open>AIChatProcessor on JSON of an unexpected shape\<close>








end
